theory Spec2Isabelle
  imports Complex_Main "HOL-Library.Word"
begin

section \<open>The MAP solver of the super-resolution library (optimization/map\_solver.cpp)\<close>

text \<open>
  The theory embeds the five functions of \<^verbatim>\<open>map_solver.cpp\<close> that carry behaviour:
  \<^verbatim>\<open>MapSolverOptions::AdjustThresholdsAdaptively\<close>, the constructor of \<^verbatim>\<open>MapSolver\<close>,
  \<^verbatim>\<open>AddRegularizer\<close>, \<^verbatim>\<open>GetNumDataPoints\<close> and \<^verbatim>\<open>GetRegularizationParameterSum\<close>.

  Conventions:
  \<^item> a C++ \<^verbatim>\<open>int\<close> is a 32-bit word read in two's complement (\<open>sint\<close>); its products
    wrap around, which is what the compiled code does where the C++ standard leaves signed
    overflow undefined. A \<^verbatim>\<open>long\<close> is a 64-bit word;
  \<^item> a C++ \<^verbatim>\<open>double\<close> is a real number: the arithmetic is the exact one, so rounding,
    infinities and NaN are outside the model;
  \<^item> a glog \<^verbatim>\<open>CHECK\<close> that fails ends the process: the model returns \<open>Inl\<close> of the
    failure with the message of the check;
  \<^item> a \<^verbatim>\<open>std::vector\<close> is a list, \<^verbatim>\<open>push_back\<close> appends at the end;
  \<^item> a member that the source writes with a trailing underscore, such as
    \<^verbatim>\<open>num_channels_\<close>, has the suffix \<open>_m\<close> here (\<open>num_channels_m\<close>): a name cannot end
    with an underscore.
\<close>

type_synonym cint = "32 word"
type_synonym clong = "64 word"
type_synonym double = real

definition INT_MAX :: cint where
  \<comment> \<open>\<^verbatim>\<open>std::numeric_limits<int>::max()\<close>\<close>
  "INT_MAX = 2147483647"

datatype error = CheckFailed string

subsection \<open>MapSolverOptions\<close>

text \<open>
  The struct is declared in the header \<^verbatim>\<open>map_solver.h\<close>; its fields are the ones that
  \<^verbatim>\<open>AdjustThresholdsAdaptively\<close> and \<^verbatim>\<open>PrintSolverOptions\<close> read. The record is extensible:
  any further field of the struct lives in the \<open>more\<close> part, which the theorems below cover.
\<close>

datatype LeastSquaresSolver = CG_SOLVER | LBFGS_SOLVER

record MapSolverOptions =
  least_squares_solver :: LeastSquaresSolver
  use_numerical_differentiation :: bool
  numerical_differentiation_step :: double
  split_channels :: bool
  gradient_norm_threshold :: double
  cost_decrease_threshold :: double
  parameter_variation_threshold :: double

definition AdjustThresholdsAdaptively ::
  "cint \<Rightarrow> double \<Rightarrow> 'a MapSolverOptions_scheme \<Rightarrow> 'a MapSolverOptions_scheme" where
  "AdjustThresholdsAdaptively num_parameters regularization_parameter_sum opts =
     (let threshold_scale = real_of_int (sint num_parameters) * regularization_parameter_sum
      in if threshold_scale < 1 then opts
         else opts
           \<lparr> gradient_norm_threshold := gradient_norm_threshold opts * threshold_scale,
             cost_decrease_threshold := cost_decrease_threshold opts * threshold_scale,
             parameter_variation_threshold :=
               parameter_variation_threshold opts * threshold_scale \<rparr>)"

text \<open>
  An options value on which the model is run below. The initial values of the struct are in
  the header; the thresholds here are positive numbers chosen for the runs.
\<close>

definition sample_options :: MapSolverOptions where
  "sample_options =
     \<lparr> least_squares_solver = CG_SOLVER,
       use_numerical_differentiation = False,
       numerical_differentiation_step = 1 / 1000000,
       split_channels = False,
       gradient_norm_threshold = 1 / 10000000000,
       cost_decrease_threshold = 1 / 1000000,
       parameter_variation_threshold = 1 / 100000000 \<rparr>"

subsection \<open>The collaborators of the solver\<close>

text \<open>\<^verbatim>\<open>cv::Size\<close> of OpenCV: two \<^verbatim>\<open>int\<close> fields.\<close>

record Size =
  width :: cint
  height :: cint

text \<open>
  Modelled from the spec: the forward image-formation model (class \<^verbatim>\<open>ImageModel\<close>, not in
  this file) "must expose an integer upsampling/downsampling scale factor"; the constructor
  reads it into a \<^verbatim>\<open>const int\<close>.
\<close>

record ImageModel =
  downsampling_scale_m :: cint

definition GetDownsamplingScale :: "'a ImageModel_scheme \<Rightarrow> cint" where
  "GetDownsamplingScale image_model = downsampling_scale_m image_model"

text \<open>
  The interpolation modes of \<^verbatim>\<open>ImageData::ResizeImage\<close>. The constructor names
  \<^verbatim>\<open>INTERPOLATE_NEAREST\<close> only; the second constructor stands for the smoothing modes of
  the enumeration, which is declared with \<^verbatim>\<open>ImageData\<close>.
\<close>

datatype ResizeInterpolationMethod = INTERPOLATE_NEAREST | INTERPOLATE_LINEAR

text \<open>
  The pixel buffer \<^verbatim>\<open>ImageData\<close> is a class of its own, outside this file. The solver uses
  three of its methods, which the model takes as parameters: the images are values of a type
  \<open>'img\<close> and the methods are the fields of an \<open>ImageData_ops\<close>. \<^verbatim>\<open>ResizeImage\<close> changes
  the image it is called on; here it returns the resized image.
\<close>

record 'img ImageData_ops =
  ImageData_GetNumChannels :: "'img \<Rightarrow> cint"
  ImageData_GetImageSize :: "'img \<Rightarrow> Size"
  ImageData_ResizeImage :: "Size \<Rightarrow> ResizeInterpolationMethod \<Rightarrow> 'img \<Rightarrow> 'img"

subsection \<open>MapSolver\<close>

text \<open>
  The members of \<^verbatim>\<open>MapSolver\<close> and of its base class \<^verbatim>\<open>Solver\<close> (the first two fields,
  set by the base constructor from the arguments). A regularizer is a shared pointer: a
  value of a type \<open>'reg\<close> of handles.
\<close>

record ('img, 'reg) MapSolver =
  image_model_m :: ImageModel
  print_solver_output_m :: bool
  num_channels_m :: cint
  image_size_m :: Size
  observations_m :: "'img list"
  regularizers_m :: "('reg \<times> double) list"

text \<open>
  The first loop of the constructor, over the images at the indices \<open>1, 2, ...\<close>: each
  \<^verbatim>\<open>CHECK_EQ\<close> either passes or ends the process.
\<close>

fun CheckChannels :: "'img ImageData_ops \<Rightarrow> cint \<Rightarrow> 'img list \<Rightarrow> error + unit" where
  "CheckChannels ops num_channels [] = Inr ()"
| "CheckChannels ops num_channels (low_res_image # rest) =
     (if ImageData_GetNumChannels ops low_res_image = num_channels
      then CheckChannels ops num_channels rest
      else Inl (CheckFailed ''Image channel counts do not match up.''))"

text \<open>The second loop: a resized copy of each image is pushed to the back of the observations.\<close>

fun ResizeObservations ::
  "'img ImageData_ops \<Rightarrow> Size \<Rightarrow> 'img list \<Rightarrow> 'img list \<Rightarrow> 'img list" where
  "ResizeObservations ops image_size [] observations = observations"
| "ResizeObservations ops image_size (low_res_image # rest) observations =
     ResizeObservations ops image_size rest
       (observations @ [ImageData_ResizeImage ops image_size INTERPOLATE_NEAREST low_res_image])"

text \<open>
  The constructor. \<^verbatim>\<open>num_observations\<close> is the size of the vector converted to \<^verbatim>\<open>int\<close>.
  When the first check passes the vector is not empty (lemma \<open>num_observations_pos\<close>
  below), so \<^verbatim>\<open>low_res_images[0]\<close> exists.
\<close>

definition MapSolver_new ::
  "'img ImageData_ops \<Rightarrow> ImageModel \<Rightarrow> 'img list \<Rightarrow> bool \<Rightarrow> error + ('img, 'reg) MapSolver" where
  "MapSolver_new ops image_model low_res_images print_solver_output =
     (let num_observations = (of_nat (length low_res_images) :: cint) in
      if \<not> 0 < sint num_observations
      then Inl (CheckFailed ''Cannot super-resolve with 0 low-res images.'')
      else
        let num_channels = ImageData_GetNumChannels ops (low_res_images ! 0) in
        case CheckChannels ops num_channels (drop 1 low_res_images) of
          Inl e \<Rightarrow> Inl e
        | Inr _ \<Rightarrow>
            let upsampling_scale = GetDownsamplingScale image_model;
                lr_image_size = ImageData_GetImageSize ops (low_res_images ! 0);
                image_size = \<lparr> width = width lr_image_size * upsampling_scale,
                               height = height lr_image_size * upsampling_scale \<rparr>
            in Inr \<lparr> image_model_m = image_model,
                     print_solver_output_m = print_solver_output,
                     num_channels_m = num_channels,
                     image_size_m = image_size,
                     observations_m = ResizeObservations ops image_size low_res_images [],
                     regularizers_m = [] \<rparr>)"

definition AddRegularizer ::
  "'reg \<Rightarrow> double \<Rightarrow> ('img, 'reg) MapSolver \<Rightarrow> ('img, 'reg) MapSolver" where
  "AddRegularizer regularizer regularization_parameter solver =
     solver \<lparr> regularizers_m :=
       regularizers_m solver @ [(regularizer, regularization_parameter)] \<rparr>"

text \<open>
  Modelled from the spec: \<^verbatim>\<open>GetNumPixels\<close> and \<^verbatim>\<open>GetNumChannels\<close> are defined in the header
  \<^verbatim>\<open>map_solver.h\<close>, which is not among the sources. The spec has pixelCount = width
  \<open>\<times>\<close> height of the high-resolution size and the channel count fixed at construction.
  Both are \<^verbatim>\<open>int\<close>: the fields of \<^verbatim>\<open>cv::Size\<close> are, and \<^verbatim>\<open>GetNumDataPoints\<close> returns
  the product of the two as an \<^verbatim>\<open>int\<close>.
\<close>

definition GetNumPixels :: "('img, 'reg) MapSolver \<Rightarrow> cint" where
  "GetNumPixels solver = width (image_size_m solver) * height (image_size_m solver)"

definition GetNumChannels :: "('img, 'reg) MapSolver \<Rightarrow> cint" where
  "GetNumChannels solver = num_channels_m solver"

text \<open>
  \<^verbatim>\<open>GetNumDataPoints\<close>: the product of two \<^verbatim>\<open>int\<close>s is an \<^verbatim>\<open>int\<close>, which the
  initialisation of \<^verbatim>\<open>num_data_points\<close> then widens to \<^verbatim>\<open>long\<close> (\<open>scast\<close> keeps the sign).
  \<^verbatim>\<open>CHECK_LE\<close> compares it with \<^verbatim>\<open>INT_MAX\<close>, widened likewise.
\<close>

definition GetNumDataPoints :: "('img, 'reg) MapSolver \<Rightarrow> error + cint" where
  "GetNumDataPoints solver =
     (let num_data_points = (scast (GetNumPixels solver * GetNumChannels solver) :: clong) in
      if sint num_data_points \<le> sint (scast INT_MAX :: clong)
      then Inr (GetNumPixels solver * GetNumChannels solver)
      else Inl (CheckFailed ''Number of data points exceeds maximum size.''))"

definition GetRegularizationParameterSum :: "('img, 'reg) MapSolver \<Rightarrow> double" where
  "GetRegularizationParameterSum solver =
     foldl (\<lambda>regularization_parameter_sum regularizer_and_parameter.
              regularization_parameter_sum + snd regularizer_and_parameter)
       0 (regularizers_m solver)"

subsection \<open>Values on which the model is run\<close>

text \<open>
  A pixel buffer reduced to what the solver reads of it: the channel count, the size and,
  once \<^verbatim>\<open>ResizeImage\<close> has been called on it, the interpolation that call asked for.
\<close>

record TestImage =
  channels :: cint
  extent :: Size
  resized_with :: "ResizeInterpolationMethod option"

definition test_ops :: "TestImage ImageData_ops" where
  "test_ops =
     \<lparr> ImageData_GetNumChannels = channels,
       ImageData_GetImageSize = extent,
       ImageData_ResizeImage =
         (\<lambda>new_size method img. img \<lparr> extent := new_size, resized_with := Some method \<rparr>) \<rparr>"

definition test_image :: "cint \<Rightarrow> cint \<Rightarrow> cint \<Rightarrow> TestImage" where
  "test_image c w h =
     \<lparr> channels = c, extent = \<lparr> width = w, height = h \<rparr>, resized_with = None \<rparr>"

text \<open>
  The solver that the constructor builds from one colour image of 4096 by 4096 pixels and
  a model of scale 8: 32768 by 32768 pixels in 3 channels.
\<close>

definition large_solver :: "(TestImage, unit) MapSolver" where
  "large_solver =
     \<lparr> image_model_m = \<lparr> downsampling_scale_m = 8 \<rparr>,
       print_solver_output_m = True,
       num_channels_m = 3,
       image_size_m = \<lparr> width = 32768, height = 32768 \<rparr>,
       observations_m =
         [\<lparr> channels = 3, extent = \<lparr> width = 32768, height = 32768 \<rparr>,
            resized_with = Some INTERPOLATE_NEAREST \<rparr>],
       regularizers_m = [] \<rparr>"

section \<open>Auxiliary facts\<close>

subsection \<open>Integers\<close>

lemma num_observations_pos:
  "0 < sint (of_nat (length xs) :: cint) \<Longrightarrow> xs \<noteq> []"
  by auto

text \<open>A vector of fewer than \<open>2^31\<close> elements has a size that \<^verbatim>\<open>int\<close> holds.\<close>

lemma sint_length:
  assumes "length xs < 2 ^ 31"
  shows "sint (of_nat (length xs) :: cint) = int (length xs)"
  using assms by (simp add: signed_of_nat signed_take_bit_int_eq_self)

text \<open>A product of two \<^verbatim>\<open>int\<close>s is the product of the integers when that fits.\<close>

lemma cint_mult_exact:
  fixes a b :: cint
  assumes "- (2 ^ 31) \<le> sint a * sint b" and "sint a * sint b < 2 ^ 31"
  shows "sint (a * b) = sint a * sint b"
  using assms by (simp add: sint_word_ariths signed_take_bit_int_eq_self)

subsection \<open>The loops\<close>

lemma CheckChannels_Inr:
  "CheckChannels ops c xs = Inr ()
     \<longleftrightarrow> (\<forall>x\<in>set xs. ImageData_GetNumChannels ops x = c)"
  by (induction xs) auto

lemma CheckChannels_Inl:
  "CheckChannels ops c xs = Inl e \<longleftrightarrow>
     e = CheckFailed ''Image channel counts do not match up.''
     \<and> (\<exists>x\<in>set xs. ImageData_GetNumChannels ops x \<noteq> c)"
  by (induction xs) auto

lemma ResizeObservations_map:
  "ResizeObservations ops sz xs acc =
     acc @ map (ImageData_ResizeImage ops sz INTERPOLATE_NEAREST) xs"
  by (induction xs arbitrary: acc) auto

lemma sum_loop:
  "foldl (\<lambda>s (p :: 'r \<times> real). s + snd p) a xs = a + sum_list (map snd xs)"
  by (induction xs arbitrary: a) auto

subsection \<open>The constructor on a vector that is not empty\<close>

text \<open>
  With at least one image and fewer than \<open>2^31\<close> of them, the first check passes and the
  constructor is the channel check of the images after the first, followed by the
  assignments.
\<close>

lemma MapSolver_new_nonempty:
  assumes "low_res_images = first # rest" and "length low_res_images < 2 ^ 31"
  shows "MapSolver_new ops image_model low_res_images print_solver_output =
     (case CheckChannels ops (ImageData_GetNumChannels ops first) rest of
        Inl e \<Rightarrow> Inl e
      | Inr u \<Rightarrow>
          Inr \<lparr> image_model_m = image_model,
                print_solver_output_m = print_solver_output,
                num_channels_m = ImageData_GetNumChannels ops first,
                image_size_m =
                  \<lparr> width = width (ImageData_GetImageSize ops first)
                              * GetDownsamplingScale image_model,
                    height = height (ImageData_GetImageSize ops first)
                              * GetDownsamplingScale image_model \<rparr>,
                observations_m =
                  map (ImageData_ResizeImage ops
                    \<lparr> width = width (ImageData_GetImageSize ops first)
                                * GetDownsamplingScale image_model,
                      height = height (ImageData_GetImageSize ops first)
                                * GetDownsamplingScale image_model \<rparr>
                    INTERPOLATE_NEAREST) low_res_images,
                regularizers_m = [] \<rparr>)"
proof -
  have "sint (of_nat (length low_res_images) :: cint) = int (length low_res_images)"
    using assms(2) by (rule sint_length)
  then have pos: "0 < sint (of_nat (length low_res_images) :: cint)"
    using assms(1) by simp
  show ?thesis
    using pos unfolding MapSolver_new_def Let_def
    by (simp add: assms(1) ResizeObservations_map split: sum.splits)
qed

text \<open>
  On images that agree in channel count and size the constructor succeeds. The size of the
  solver is made of the \<^verbatim>\<open>int\<close> products, which wrap around.
\<close>

lemma MapSolver_new_agreeing_images:
  assumes "low_res_images \<noteq> []" and "length low_res_images < 2 ^ 31"
    and "\<forall>img\<in>set low_res_images.
           ImageData_GetNumChannels ops img = c
           \<and> ImageData_GetImageSize ops img = \<lparr> width = w, height = h \<rparr>"
  shows "MapSolver_new ops image_model low_res_images print_solver_output =
     Inr \<lparr> image_model_m = image_model,
           print_solver_output_m = print_solver_output,
           num_channels_m = c,
           image_size_m = \<lparr> width = w * GetDownsamplingScale image_model,
                            height = h * GetDownsamplingScale image_model \<rparr>,
           observations_m =
             map (ImageData_ResizeImage ops
                   \<lparr> width = w * GetDownsamplingScale image_model,
                     height = h * GetDownsamplingScale image_model \<rparr> INTERPOLATE_NEAREST)
               low_res_images,
           regularizers_m = [] \<rparr>"
proof -
  from assms(1) obtain first rest where split: "low_res_images = first # rest"
    by (cases low_res_images) auto
  have first: "ImageData_GetNumChannels ops first = c"
    "ImageData_GetImageSize ops first = \<lparr> width = w, height = h \<rparr>"
    using assms(3) split by simp_all
  have "\<forall>img\<in>set rest. ImageData_GetNumChannels ops img = c"
    using assms(3) split by simp
  then have "CheckChannels ops c rest = Inr ()"
    by (simp add: CheckChannels_Inr)
  then show ?thesis
    using MapSolver_new_nonempty [OF split assms(2), of ops image_model print_solver_output]
    by (simp add: first)
qed

subsection \<open>The number of data points\<close>

text \<open>
  The check of \<^verbatim>\<open>GetNumDataPoints\<close> compares an \<^verbatim>\<open>int\<close>, widened, with the largest
  \<^verbatim>\<open>int\<close>: it passes on every solver, and the function returns the wrapped product.
\<close>

lemma GetNumDataPoints_total:
  "GetNumDataPoints solver = Inr (GetNumPixels solver * GetNumChannels solver)"
proof -
  have "sint (scast (x :: cint) :: clong) = sint x" for x
    by (simp add: sint_up_scast is_up)
  moreover have "sint x \<le> 2147483647" for x :: cint
    using sint_lt [of x] by simp
  ultimately show ?thesis
    by (simp add: GetNumDataPoints_def Let_def INT_MAX_def)
qed

text \<open>
  When the pixel count and the number of data points both fit an \<^verbatim>\<open>int\<close>, the function
  returns the number of data points.
\<close>

lemma GetNumDataPoints_in_range:
  assumes "- (2 ^ 31) \<le> sint (width (image_size_m solver)) * sint (height (image_size_m solver))"
    and "sint (width (image_size_m solver)) * sint (height (image_size_m solver)) < 2 ^ 31"
    and "- (2 ^ 31) \<le> sint (width (image_size_m solver)) * sint (height (image_size_m solver))
           * sint (num_channels_m solver)"
    and "sint (width (image_size_m solver)) * sint (height (image_size_m solver))
           * sint (num_channels_m solver) < 2 ^ 31"
  shows "\<exists>n. GetNumDataPoints solver = Inr n
           \<and> sint n = sint (width (image_size_m solver)) * sint (height (image_size_m solver))
               * sint (num_channels_m solver)"
proof -
  have pixels: "sint (GetNumPixels solver)
      = sint (width (image_size_m solver)) * sint (height (image_size_m solver))"
    unfolding GetNumPixels_def using assms(1,2) by (rule cint_mult_exact)
  have "sint (GetNumPixels solver * GetNumChannels solver)
      = sint (GetNumPixels solver) * sint (GetNumChannels solver)"
    using assms(3,4) by (intro cint_mult_exact) (simp_all add: pixels GetNumChannels_def)
  then show ?thesis
    by (simp add: GetNumDataPoints_total pixels GetNumChannels_def)
qed

section \<open>The claims\<close>

subsection \<open>The number of data points\<close>

text \<open>
  C1. The claim: \<^verbatim>\<open>GetNumDataPoints\<close> returns the product of the pixel count and the
  channel count, and fails fatally whenever that product exceeds the largest signed 32-bit
  integer. The check that the source makes for this cannot fail (lemma
  \<open>GetNumDataPoints_total\<close>): the product is computed in \<^verbatim>\<open>int\<close> before it is widened to
  \<^verbatim>\<open>long\<close>. The theorem runs the code on the solver built from one colour image of 4096
  by 4096 pixels and a model of scale 8. The number of data points is 3221225472, above the
  largest \<^verbatim>\<open>int\<close> 2147483647, and the call returns -1073741824 instead of failing. Within
  the range of \<^verbatim>\<open>int\<close> the function returns the product, as the claim says (lemma
  \<open>GetNumDataPoints_in_range\<close>).
\<close>

theorem GetNumDataPoints_overflow_not_detected:
  "MapSolver_new test_ops \<lparr> downsampling_scale_m = 8 \<rparr> [test_image 3 4096 4096] True
     = Inr large_solver
   \<and> GetNumDataPoints large_solver = Inr (- 1073741824)
   \<and> sint (- 1073741824 :: cint) = - 1073741824
   \<and> sint (width (image_size_m large_solver)) * sint (height (image_size_m large_solver))
       * sint (num_channels_m large_solver) = 3221225472
   \<and> sint INT_MAX = 2147483647"
proof -
  have "MapSolver_new test_ops \<lparr> downsampling_scale_m = 8 \<rparr> [test_image 3 4096 4096] True
      = Inr large_solver"
    by (simp add: MapSolver_new_nonempty [of _ "test_image 3 4096 4096" "[]"]
        test_ops_def test_image_def large_solver_def GetDownsamplingScale_def)
  moreover have "GetNumDataPoints large_solver = Inr (- 1073741824)"
    by (simp add: GetNumDataPoints_total GetNumPixels_def GetNumChannels_def large_solver_def)
  ultimately show ?thesis
    by (simp add: large_solver_def INT_MAX_def)
qed

subsection \<open>Threshold scaling\<close>

text \<open>
  C2. When the scale \<open>num_parameters * regularization_parameter_sum\<close> is at least 1, each of
  the three thresholds after the call is its value before the call times that scale. The
  sign conditions of the claim on the two arguments are not needed.
\<close>

theorem AdjustThresholdsAdaptively_scales:
  assumes "1 \<le> real_of_int (sint n) * s"
  shows "gradient_norm_threshold (AdjustThresholdsAdaptively n s opts) =
           gradient_norm_threshold opts * (real_of_int (sint n) * s)
       \<and> cost_decrease_threshold (AdjustThresholdsAdaptively n s opts) =
           cost_decrease_threshold opts * (real_of_int (sint n) * s)
       \<and> parameter_variation_threshold (AdjustThresholdsAdaptively n s opts) =
           parameter_variation_threshold opts * (real_of_int (sint n) * s)"
  using assms by (simp add: AdjustThresholdsAdaptively_def Let_def)

theorem AdjustThresholdsAdaptively_scales_witness:
  "1 \<le> real_of_int (sint (30000 :: cint)) * (1 / 2)
   \<and> gradient_norm_threshold (AdjustThresholdsAdaptively 30000 (1 / 2) sample_options)
       = 3 / 2000000
   \<and> cost_decrease_threshold (AdjustThresholdsAdaptively 30000 (1 / 2) sample_options)
       = 3 / 200
   \<and> parameter_variation_threshold (AdjustThresholdsAdaptively 30000 (1 / 2) sample_options)
       = 3 / 20000"
proof -
  have h: "1 \<le> real_of_int (sint (30000 :: cint)) * (1 / 2)" by simp
  show ?thesis
    using h AdjustThresholdsAdaptively_scales [OF h, of sample_options]
    by (simp add: sample_options_def)
qed

text \<open>
  C3. When the scale \<open>num_parameters * regularization_parameter_sum\<close> is below 1, the call
  returns the options as they were: the three thresholds, and every other field, are
  unchanged.
\<close>

theorem AdjustThresholdsAdaptively_small_scale:
  assumes "real_of_int (sint n) * s < 1"
  shows "AdjustThresholdsAdaptively n s opts = opts"
  using assms by (simp add: AdjustThresholdsAdaptively_def Let_def)

theorem AdjustThresholdsAdaptively_small_scale_witness:
  "real_of_int (sint (3 :: cint)) * (1 / 4) < 1
   \<and> AdjustThresholdsAdaptively 3 (1 / 4) sample_options = sample_options"
proof -
  have h: "real_of_int (sint (3 :: cint)) * (1 / 4) < 1" by simp
  show ?thesis
    using h AdjustThresholdsAdaptively_small_scale [OF h, of sample_options] by simp
qed

text \<open>
  C8. On options whose three thresholds are positive, no threshold after the call is
  smaller than before it, whatever the two arguments are.
\<close>

theorem AdjustThresholdsAdaptively_never_reduces:
  assumes "0 < gradient_norm_threshold opts" and "0 < cost_decrease_threshold opts"
    and "0 < parameter_variation_threshold opts"
  shows "gradient_norm_threshold opts
           \<le> gradient_norm_threshold (AdjustThresholdsAdaptively n s opts)
       \<and> cost_decrease_threshold opts
           \<le> cost_decrease_threshold (AdjustThresholdsAdaptively n s opts)
       \<and> parameter_variation_threshold opts
           \<le> parameter_variation_threshold (AdjustThresholdsAdaptively n s opts)"
proof (cases "real_of_int (sint n) * s < 1")
  case True
  then show ?thesis by (simp add: AdjustThresholdsAdaptively_def Let_def)
next
  case False
  then have "1 \<le> real_of_int (sint n) * s" by simp
  then have "t \<le> t * (real_of_int (sint n) * s)" if "0 < t" for t :: real
    using that by simp
  with assms False show ?thesis
    by (simp add: AdjustThresholdsAdaptively_def Let_def)
qed

theorem AdjustThresholdsAdaptively_never_reduces_witness:
  "0 < gradient_norm_threshold sample_options \<and> 0 < cost_decrease_threshold sample_options
   \<and> 0 < parameter_variation_threshold sample_options
   \<and> gradient_norm_threshold sample_options
       \<le> gradient_norm_threshold (AdjustThresholdsAdaptively 30000 2 sample_options)
   \<and> cost_decrease_threshold sample_options
       \<le> cost_decrease_threshold (AdjustThresholdsAdaptively 30000 2 sample_options)
   \<and> parameter_variation_threshold sample_options
       \<le> parameter_variation_threshold (AdjustThresholdsAdaptively 30000 2 sample_options)"
proof -
  have h: "0 < gradient_norm_threshold sample_options"
    "0 < cost_decrease_threshold sample_options"
    "0 < parameter_variation_threshold sample_options"
    by (simp_all add: sample_options_def)
  show ?thesis
    using h AdjustThresholdsAdaptively_never_reduces [OF h, of 30000 2] by simp
qed

text \<open>
  C9. The call changes at most the three thresholds: the solver choice, the
  differentiation mode, the numerical step, the channel-split flag and every further field
  of the options (the \<open>more\<close> part of the record) are the same after it. The function has no
  failing branch: its result is an options value, for all arguments.
\<close>

theorem AdjustThresholdsAdaptively_frame:
  "least_squares_solver (AdjustThresholdsAdaptively n s opts) = least_squares_solver opts
   \<and> use_numerical_differentiation (AdjustThresholdsAdaptively n s opts)
       = use_numerical_differentiation opts
   \<and> numerical_differentiation_step (AdjustThresholdsAdaptively n s opts)
       = numerical_differentiation_step opts
   \<and> split_channels (AdjustThresholdsAdaptively n s opts) = split_channels opts
   \<and> MapSolverOptions.more (AdjustThresholdsAdaptively n s opts) = MapSolverOptions.more opts"
  by (simp add: AdjustThresholdsAdaptively_def Let_def)

subsection \<open>Construction\<close>

text \<open>
  C4. The claim: from a vector of images that is not empty, all with the channel count \<open>c\<close>
  and the size \<open>(w, h)\<close>, and a model of scale \<open>s \<ge> 1\<close>, the constructor succeeds and gives
  the size \<open>(w * s, h * s)\<close>, the channel count \<open>c\<close> and one observation for each image, in
  the order of the input, resized to that size with \<^verbatim>\<open>INTERPOLATE_NEAREST\<close>.

  The size is computed in \<^verbatim>\<open>int\<close>, so the claim fails where a product does not fit: from
  one image of width 65536 and a model of scale 65536 the constructor gives the width 0,
  and the product of the integers is 4294967296.
\<close>

theorem MapSolver_new_width_wraps:
  "[test_image 3 65536 3] \<noteq> []
   \<and> ImageData_GetNumChannels test_ops (test_image 3 65536 3) = 3
   \<and> ImageData_GetImageSize test_ops (test_image 3 65536 3) = \<lparr> width = 65536, height = 3 \<rparr>
   \<and> 1 \<le> sint (GetDownsamplingScale \<lparr> downsampling_scale_m = 65536 \<rparr>)
   \<and> (MapSolver_new test_ops \<lparr> downsampling_scale_m = 65536 \<rparr> [test_image 3 65536 3] True
        :: error + (TestImage, unit) MapSolver) =
       Inr \<lparr> image_model_m = \<lparr> downsampling_scale_m = 65536 \<rparr>,
             print_solver_output_m = True,
             num_channels_m = 3,
             image_size_m = \<lparr> width = 0, height = 196608 \<rparr>,
             observations_m =
               [\<lparr> channels = 3, extent = \<lparr> width = 0, height = 196608 \<rparr>,
                  resized_with = Some INTERPOLATE_NEAREST \<rparr>],
             regularizers_m = [] \<rparr>
   \<and> sint (0 :: cint) \<noteq> sint (65536 :: cint) * sint (65536 :: cint)
   \<and> sint (65536 :: cint) * sint (65536 :: cint) = 4294967296"
proof -
  have "(MapSolver_new test_ops \<lparr> downsampling_scale_m = 65536 \<rparr> [test_image 3 65536 3] True
        :: error + (TestImage, unit) MapSolver) =
       Inr \<lparr> image_model_m = \<lparr> downsampling_scale_m = 65536 \<rparr>,
             print_solver_output_m = True,
             num_channels_m = 3,
             image_size_m = \<lparr> width = 0, height = 196608 \<rparr>,
             observations_m =
               [\<lparr> channels = 3, extent = \<lparr> width = 0, height = 196608 \<rparr>,
                  resized_with = Some INTERPOLATE_NEAREST \<rparr>],
             regularizers_m = [] \<rparr>"
    by (simp add: MapSolver_new_nonempty [of _ "test_image 3 65536 3" "[]"]
        test_ops_def test_image_def GetDownsamplingScale_def)
  then show ?thesis
    by (simp add: test_ops_def test_image_def GetDownsamplingScale_def)
qed

text \<open>
  C4, amended. From a vector of images that is not empty (and of fewer than \<open>2^31\<close> images,
  the sizes that \<^verbatim>\<open>int num_observations\<close> holds), all with the channel count \<open>c\<close> and the
  size \<open>(w, h)\<close>, and a model of scale \<open>s\<close> such that the products \<open>w * s\<close> and \<open>h * s\<close> of
  the integers fit an \<^verbatim>\<open>int\<close>, the constructor succeeds. The width and the height of the
  solver are the integers \<open>w * s\<close> and \<open>h * s\<close>, the channel count is \<open>c\<close>, and the
  observations are the images in the order of the input, as many as the images, each
  resized to the size of the solver with \<^verbatim>\<open>INTERPOLATE_NEAREST\<close>.
\<close>

theorem MapSolver_new_consistent_in_range:
  assumes "low_res_images \<noteq> []" and "length low_res_images < 2 ^ 31"
    and "\<forall>img\<in>set low_res_images.
           ImageData_GetNumChannels ops img = c
           \<and> ImageData_GetImageSize ops img = \<lparr> width = w, height = h \<rparr>"
    and "- (2 ^ 31) \<le> sint w * sint (GetDownsamplingScale image_model)"
    and "sint w * sint (GetDownsamplingScale image_model) < 2 ^ 31"
    and "- (2 ^ 31) \<le> sint h * sint (GetDownsamplingScale image_model)"
    and "sint h * sint (GetDownsamplingScale image_model) < 2 ^ 31"
  shows "\<exists>solver.
           MapSolver_new ops image_model low_res_images print_solver_output = Inr solver
           \<and> sint (width (image_size_m solver)) = sint w * sint (GetDownsamplingScale image_model)
           \<and> sint (height (image_size_m solver)) = sint h * sint (GetDownsamplingScale image_model)
           \<and> num_channels_m solver = c
           \<and> length (observations_m solver) = length low_res_images
           \<and> observations_m solver =
               map (ImageData_ResizeImage ops (image_size_m solver) INTERPOLATE_NEAREST)
                 low_res_images
           \<and> regularizers_m solver = []"
proof -
  have "sint (w * GetDownsamplingScale image_model) = sint w * sint (GetDownsamplingScale image_model)"
    using assms(4,5) by (rule cint_mult_exact)
  moreover
  have "sint (h * GetDownsamplingScale image_model) = sint h * sint (GetDownsamplingScale image_model)"
    using assms(6,7) by (rule cint_mult_exact)
  ultimately show ?thesis
    by (simp add: MapSolver_new_agreeing_images [OF assms(1,2,3)])
qed

theorem MapSolver_new_consistent_in_range_witness:
  "[test_image 3 4 3, test_image 3 4 3] \<noteq> []
   \<and> length [test_image 3 4 3, test_image 3 4 3] < 2 ^ 31
   \<and> (\<exists>solver :: (TestImage, unit) MapSolver.
        MapSolver_new test_ops \<lparr> downsampling_scale_m = 2 \<rparr>
          [test_image 3 4 3, test_image 3 4 3] True = Inr solver
        \<and> sint (width (image_size_m solver)) = 8
        \<and> sint (height (image_size_m solver)) = 6
        \<and> num_channels_m solver = 3
        \<and> length (observations_m solver) = 2
        \<and> observations_m solver =
            [\<lparr> channels = 3, extent = image_size_m solver,
               resized_with = Some INTERPOLATE_NEAREST \<rparr>,
             \<lparr> channels = 3, extent = image_size_m solver,
               resized_with = Some INTERPOLATE_NEAREST \<rparr>])"
proof -
  have h1: "[test_image 3 4 3, test_image 3 4 3] \<noteq> []" by simp
  have h2: "length [test_image 3 4 3, test_image 3 4 3] < 2 ^ 31" by simp
  have h3: "\<forall>img\<in>set [test_image 3 4 3, test_image 3 4 3].
           ImageData_GetNumChannels test_ops img = 3
           \<and> ImageData_GetImageSize test_ops img = \<lparr> width = 4, height = 3 \<rparr>"
    by (simp add: test_ops_def test_image_def)
  have h4: "- (2 ^ 31) \<le> sint (4 :: cint) * sint (GetDownsamplingScale \<lparr> downsampling_scale_m = 2 \<rparr>)"
    and h5: "sint (4 :: cint) * sint (GetDownsamplingScale \<lparr> downsampling_scale_m = 2 \<rparr>) < 2 ^ 31"
    and h6: "- (2 ^ 31) \<le> sint (3 :: cint) * sint (GetDownsamplingScale \<lparr> downsampling_scale_m = 2 \<rparr>)"
    and h7: "sint (3 :: cint) * sint (GetDownsamplingScale \<lparr> downsampling_scale_m = 2 \<rparr>) < 2 ^ 31"
    by (simp_all add: GetDownsamplingScale_def)
  show ?thesis
    using h1 h2
      MapSolver_new_consistent_in_range [OF h1 h2 h3 h4 h5 h6 h7, of True, where ?'b = unit]
    by (auto simp: test_ops_def test_image_def GetDownsamplingScale_def)
qed

text \<open>
  C5. On the empty vector the first check of the constructor fails: the result is the
  failure with the message of that check, and no solver.
\<close>

theorem MapSolver_new_empty:
  "MapSolver_new ops image_model [] print_solver_output =
     Inl (CheckFailed ''Cannot super-resolve with 0 low-res images.'')"
  by (simp add: MapSolver_new_def)

text \<open>
  C6. On a vector that is not empty (and of fewer than \<open>2^31\<close> images, the sizes that
  \<^verbatim>\<open>int num_observations\<close> holds), the constructor fails if and only if the channel count
  of some image differs from that of the first image; and when it fails, the failure is the
  one of the channel check.
\<close>

theorem MapSolver_new_fails_iff_mismatch:
  fixes ops :: "'img ImageData_ops"
  assumes "low_res_images \<noteq> []" and "length low_res_images < 2 ^ 31"
  shows "(isl (MapSolver_new ops image_model low_res_images print_solver_output
                :: error + ('img, 'reg) MapSolver)
           \<longleftrightarrow> (\<exists>img\<in>set low_res_images.
                  ImageData_GetNumChannels ops img
                    \<noteq> ImageData_GetNumChannels ops (hd low_res_images)))
       \<and> (isl (MapSolver_new ops image_model low_res_images print_solver_output
                :: error + ('img, 'reg) MapSolver)
           \<longleftrightarrow> (MapSolver_new ops image_model low_res_images print_solver_output
                  :: error + ('img, 'reg) MapSolver)
                 = Inl (CheckFailed ''Image channel counts do not match up.''))"
proof -
  from assms(1) obtain first rest where split: "low_res_images = first # rest"
    by (cases low_res_images) auto
  note new = MapSolver_new_nonempty [OF split assms(2), of ops image_model print_solver_output,
    where ?'b = 'reg]
  show ?thesis
  proof (cases "CheckChannels ops (ImageData_GetNumChannels ops first) rest")
    case (Inl e)
    then have "e = CheckFailed ''Image channel counts do not match up.''"
      and "\<exists>x\<in>set rest. ImageData_GetNumChannels ops x \<noteq> ImageData_GetNumChannels ops first"
      by (simp_all add: CheckChannels_Inl)
    with Inl new show ?thesis by (auto simp: split)
  next
    case (Inr u)
    then have "\<forall>x\<in>set rest. ImageData_GetNumChannels ops x = ImageData_GetNumChannels ops first"
      by (simp add: CheckChannels_Inr [symmetric])
    with Inr new show ?thesis by (auto simp: split)
  qed
qed

theorem MapSolver_new_fails_iff_mismatch_witness:
  "[test_image 3 4 3, test_image 1 4 3] \<noteq> []
   \<and> length [test_image 3 4 3, test_image 1 4 3] < 2 ^ 31
   \<and> (\<exists>img\<in>set [test_image 3 4 3, test_image 1 4 3].
         ImageData_GetNumChannels test_ops img
           \<noteq> ImageData_GetNumChannels test_ops (hd [test_image 3 4 3, test_image 1 4 3]))
   \<and> (MapSolver_new test_ops \<lparr> downsampling_scale_m = 2 \<rparr>
        [test_image 3 4 3, test_image 1 4 3] True :: error + (TestImage, unit) MapSolver)
       = Inl (CheckFailed ''Image channel counts do not match up.'')"
proof -
  have h1: "[test_image 3 4 3, test_image 1 4 3] \<noteq> []" by simp
  have h2: "length [test_image 3 4 3, test_image 1 4 3] < 2 ^ 31" by simp
  have h3: "\<exists>img\<in>set [test_image 3 4 3, test_image 1 4 3].
         ImageData_GetNumChannels test_ops img
           \<noteq> ImageData_GetNumChannels test_ops (hd [test_image 3 4 3, test_image 1 4 3])"
    by (simp add: test_ops_def test_image_def)
  show ?thesis
    using h1 h2 h3
      MapSolver_new_fails_iff_mismatch [OF h1 h2, of test_ops "\<lparr> downsampling_scale_m = 2 \<rparr>" True,
        where ?'reg = unit]
    by blast
qed

subsection \<open>Regularizers\<close>

text \<open>
  C7. \<^verbatim>\<open>GetRegularizationParameterSum\<close> returns the sum of the weights of the registered
  entries, and 0 on a solver with no entries. The method is \<^verbatim>\<open>const\<close> and its loop
  assigns to a local variable only: the model is a function from the solver to the sum, with
  no solver in its result.
\<close>

theorem GetRegularizationParameterSum_sum:
  "GetRegularizationParameterSum solver = sum_list (map snd (regularizers_m solver))
   \<and> GetRegularizationParameterSum (solver \<lparr> regularizers_m := [] \<rparr>) = 0"
  by (simp add: GetRegularizationParameterSum_def sum_loop)

text \<open>
  C10. \<^verbatim>\<open>AddRegularizer\<close> has no check and no failing branch, for every weight of either
  sign. After it the sum of the weights is the sum before plus the new weight, and the
  entries are the entries before followed by the new one: nothing is removed.
\<close>

theorem AddRegularizer_adds_weight:
  "GetRegularizationParameterSum (AddRegularizer regularizer w solver)
     = GetRegularizationParameterSum solver + w
   \<and> regularizers_m (AddRegularizer regularizer w solver)
     = regularizers_m solver @ [(regularizer, w)]"
  by (simp add: GetRegularizationParameterSum_def AddRegularizer_def)

end
